theory Spec2Isabelle
  imports Main "HOL-Library.AList"
begin

section \<open>JavaScript values carried by handshakes and events\<close>

text \<open>
  Event payloads and the handshake token are decoded from JSON, so a handler can receive
  any JSON value, or \<open>undefined\<close> when the client sends no argument. A number is kept
  as its decimal rendering (what \<open>String(n)\<close> gives), which is all the handlers use of it.
  An object is its list of own properties in the order of the JSON text; a later duplicate
  of a key overrides an earlier one.
\<close>

datatype jsval =
    JUndefined
  | JNull
  | JBool bool
  | JNum string
  | JStr string
  | JArr "jsval list"
  | JObj "(string \<times> jsval) list"

text \<open>\<open>!token\<close> is true exactly for the falsy values.\<close>

fun truthy :: "jsval \<Rightarrow> bool" where
  "truthy JUndefined = False"
| "truthy JNull = False"
| "truthy (JBool b) = b"
| "truthy (JNum s) = (s \<noteq> ''0'' \<and> s \<noteq> ''NaN'')"
| "truthy (JStr s) = (s \<noteq> [])"
| "truthy (JArr xs) = True"
| "truthy (JObj kvs) = True"

text \<open>
  The conversion a template literal \<open>`group-${v}`\<close> applies to \<open>v\<close>. \<open>None\<close> is the
  TypeError raised for an object whose own property \<open>toString\<close> hides the inherited method:
  a decoded JSON value is never callable, and the inherited \<open>valueOf\<close> (or an own one)
  gives no primitive either. An array is joined with commas, \<open>null\<close> and \<open>undefined\<close>
  elements printing as the empty string.
\<close>

fun template :: "jsval \<Rightarrow> string option"
  and join_elems :: "jsval list \<Rightarrow> string option" where
  "template JUndefined = Some ''undefined''"
| "template JNull = Some ''null''"
| "template (JBool b) = Some (if b then ''true'' else ''false'')"
| "template (JNum s) = Some s"
| "template (JStr s) = Some s"
| "template (JArr xs) = join_elems xs"
| "template (JObj kvs) =
     (if ''toString'' \<in> fst ` set kvs then None else Some ''[object Object]'')"
| "join_elems [] = Some []"
| "join_elems (x # xs) =
     (case (if x = JUndefined \<or> x = JNull then Some [] else template x) of
        None \<Rightarrow> None
      | Some s \<Rightarrow>
          (case join_elems xs of
             None \<Rightarrow> None
           | Some r \<Rightarrow> Some (if xs = [] then s else s @ '','' @ r)))"

text \<open>
  \<open>const { a, b } = data\<close>: a TypeError (\<open>None\<close>) when \<open>data\<close> is \<open>undefined\<close> or
  \<open>null\<close>; otherwise each name reads a property, \<open>undefined\<close> when there is none. None of
  the names the handlers read exists on a prototype, so only own properties count.
\<close>

fun destructure :: "jsval \<Rightarrow> (string \<Rightarrow> jsval) option" where
  "destructure JUndefined = None"
| "destructure JNull = None"
| "destructure (JObj kvs) =
     Some (\<lambda>k. case map_of (rev kvs) k of None \<Rightarrow> JUndefined | Some v \<Rightarrow> v)"
| "destructure v = Some (\<lambda>k. JUndefined)"

section \<open>State of the relay\<close>

type_synonym sid = string
type_synonym time = int

text \<open>The value stored in \<open>activeUsers\<close> under a user id.\<close>

record presence =
  socketId :: sid
  connectedAt :: time
  lastSeen :: time

text \<open>
  A connected socket: the identity the gate attached to it and the rooms it is in.
\<close>

record sock =
  userId :: string
  userEmail :: string
  rooms :: "string set"

text \<open>The payload of a verified token, \<open>{ userId, email }\<close> as the server signs it.\<close>

record decoded =
  d_userId :: string
  d_email :: string

datatype auth_error = NoTokenProvided | InvalidToken

datatype outbound =
    UserOnline string time
  | UserOffline string time
  | UserJoinedGroup string jsval time
  | CollaborationUpdateOut string jsval jsval time
  | PracticeUpdateOut string jsval jsval time
  | UserTyping string time
  | HeartbeatAck time
  | ErrorOut string

datatype logline =
    UserConnected string
  | UserJoinedStudyGroup string string
  | UserDisconnected string string
  | SocketAuthError
  | JoinStudyGroupError
  | CollaborationUpdateError
  | PracticeUpdateError
  | TypingIndicatorError

text \<open>
  What the server does that can be seen from outside, in the order it does it:
  \<open>console.log\<close>, \<open>console.error\<close>, a packet handed to one socket, a refused
  connection attempt, and a call of \<open>User.findByIdAndUpdate\<close>.
\<close>

datatype action =
    Log logline
  | LogError logline
  | Send sid outbound
  | Refuse sid auth_error
  | DbUpdate string time

text \<open>
  \<open>sockets\<close> is the namespace's table of connected sockets, in connection order;
  \<open>activeUsers\<close> is the \<open>Map\<close> of the source, kept as an association list in insertion
  order; \<open>userModel\<close> says whether the \<open>User\<close> model was created at start-up.
\<close>

record relay =
  sockets :: "(sid \<times> sock) list"
  activeUsers :: "(string \<times> presence) list"
  userModel :: bool
  trace :: "action list"

definition init :: "bool \<Rightarrow> relay" where
  "init um = \<lparr>sockets = [], activeUsers = [], userModel = um, trace = []\<rparr>"

definition connected :: "relay \<Rightarrow> sid \<Rightarrow> bool" where
  "connected st c = (c \<in> fst ` set (sockets st))"

text \<open>The sockets that are in room \<open>r\<close>.\<close>

fun in_room :: "string \<Rightarrow> sid \<times> sock \<Rightarrow> bool" where
  "in_room r (i, s) = (r \<in> rooms s)"

definition members :: "relay \<Rightarrow> string \<Rightarrow> sid set" where
  "members st r = set (map fst (filter (in_room r) (sockets st)))"

section \<open>The socket library's operations\<close>

definition console_log :: "logline \<Rightarrow> relay \<Rightarrow> relay" where
  "console_log l st = st\<lparr>trace := trace st @ [Log l]\<rparr>"

definition console_error :: "logline \<Rightarrow> relay \<Rightarrow> relay" where
  "console_error l st = st\<lparr>trace := trace st @ [LogError l]\<rparr>"

text \<open>\<open>socket.emit(ev)\<close>: to the socket itself.\<close>

definition emit :: "sid \<Rightarrow> outbound \<Rightarrow> relay \<Rightarrow> relay" where
  "emit c ev st = st\<lparr>trace := trace st @ [Send c ev]\<rparr>"

text \<open>\<open>socket.join(r)\<close>: adding a room twice changes nothing.\<close>

fun add_room :: "sid \<Rightarrow> string \<Rightarrow> sid \<times> sock \<Rightarrow> sid \<times> sock" where
  "add_room c r (i, s) = (if i = c then (i, s\<lparr>rooms := insert r (rooms s)\<rparr>) else (i, s))"

definition socket_join :: "sid \<Rightarrow> string \<Rightarrow> relay \<Rightarrow> relay" where
  "socket_join c r st = st\<lparr>sockets := map (add_room c r) (sockets st)\<rparr>"

text \<open>
  \<open>socket.to(x)\<close> adds \<open>x\<close> to the set of target rooms, or each element of \<open>x\<close> when
  \<open>x\<close> is an array.
\<close>

fun room_keys :: "jsval \<Rightarrow> jsval list" where
  "room_keys (JArr xs) = xs"
| "room_keys v = [v]"

text \<open>
  \<open>socket.to(x).emit(ev)\<close> reaches every socket other than the sender that is in one of
  the target rooms. Rooms are named by strings, so a target that is no string names no room;
  with no target at all (the empty array) the library sends to every socket but the sender.
\<close>

fun targeted :: "sid \<Rightarrow> jsval list \<Rightarrow> sid \<times> sock \<Rightarrow> bool" where
  "targeted c keys (i, s) = (i \<noteq> c \<and> (keys = [] \<or> (\<exists>r \<in> rooms s. JStr r \<in> set keys)))"

definition recipients :: "sid \<Rightarrow> jsval list \<Rightarrow> relay \<Rightarrow> sid list" where
  "recipients c keys st = map fst (filter (targeted c keys) (sockets st))"

definition to_emit :: "sid \<Rightarrow> jsval list \<Rightarrow> outbound \<Rightarrow> relay \<Rightarrow> relay" where
  "to_emit c keys ev st = st\<lparr>trace := trace st @ map (\<lambda>i. Send i ev) (recipients c keys st)\<rparr>"

text \<open>\<open>socket.broadcast.emit(ev)\<close>: every connected socket but the sender.\<close>

definition broadcast_emit :: "sid \<Rightarrow> outbound \<Rightarrow> relay \<Rightarrow> relay" where
  "broadcast_emit c ev st = to_emit c [] ev st"

section \<open>The connection gate\<close>

text \<open>
  \<open>io.use\<close>: the token of the handshake is checked once. \<open>verify\<close> stands for
  \<open>jwt.verify(token, JWT_SECRET)\<close>, \<open>None\<close> when it throws.
\<close>

definition io_use :: "(jsval \<Rightarrow> decoded option) \<Rightarrow> jsval \<Rightarrow> auth_error + decoded" where
  "io_use verify token =
     (if \<not> truthy token then Inl NoTokenProvided
      else case verify token of
             None \<Rightarrow> Inl InvalidToken
           | Some d \<Rightarrow> Inr d)"

text \<open>
  \<open>io.on('connection')\<close> up to the registration of the handlers. The library has put the
  socket in the table and in the room named by its own id before the callback runs. The
  three times are the three \<open>new Date()\<close> of the callback.
\<close>

definition on_connection :: "sid \<Rightarrow> decoded \<Rightarrow> time \<Rightarrow> time \<Rightarrow> time \<Rightarrow> relay \<Rightarrow> relay" where
  "on_connection c d t_conn t_seen t_on st =
     (let u = d_userId d;
          st0 = st\<lparr>sockets := sockets st @ [(c, \<lparr>userId = u, userEmail = d_email d, rooms = {c}\<rparr>)]\<rparr>;
          st1 = console_log (UserConnected u) st0;
          st2 = st1\<lparr>activeUsers :=
                  AList.update u \<lparr>socketId = c, connectedAt = t_conn, lastSeen = t_seen\<rparr>
                    (activeUsers st1)\<rparr>;
          st3 = socket_join c (''user-'' @ u) st2
      in broadcast_emit c (UserOnline u t_on) st3)"

text \<open>
  A connection attempt. A refused attempt never reaches \<open>io.on('connection')\<close>; the
  \<open>catch\<close> of the gate logs the error of an invalid token. The library gives a new socket
  an id no connected socket has.
\<close>

definition connect :: "(jsval \<Rightarrow> decoded option) \<Rightarrow> sid \<Rightarrow> jsval \<Rightarrow> time \<Rightarrow> time \<Rightarrow> time
    \<Rightarrow> relay \<Rightarrow> relay" where
  "connect verify c token t_conn t_seen t_on st =
     (if connected st c then st
      else case io_use verify token of
             Inl NoTokenProvided \<Rightarrow> st\<lparr>trace := trace st @ [Refuse c NoTokenProvided]\<rparr>
           | Inl InvalidToken \<Rightarrow>
               (console_error SocketAuthError st)
                 \<lparr>trace := trace (console_error SocketAuthError st) @ [Refuse c InvalidToken]\<rparr>
           | Inr d \<Rightarrow> on_connection c d t_conn t_seen t_on st)"

section \<open>The event handlers\<close>

text \<open>
  Each handler takes the socket's id \<open>c\<close> and \<open>socket.userId\<close> as \<open>u\<close>, the payload,
  and the value of each \<open>new Date()\<close> it evaluates.
\<close>

definition on_join_study_group :: "sid \<Rightarrow> string \<Rightarrow> jsval \<Rightarrow> time \<Rightarrow> relay \<Rightarrow> relay" where
  "on_join_study_group c u groupId t st =
     (case template groupId of
        None \<Rightarrow>
          emit c (ErrorOut ''Failed to join study group'') (console_error JoinStudyGroupError st)
      | Some g \<Rightarrow>
          (let st1 = socket_join c (''group-'' @ g) st;
               st2 = to_emit c [JStr (''group-'' @ g)] (UserJoinedGroup u groupId t) st1
           in console_log (UserJoinedStudyGroup u g) st2))"

definition on_collaboration_update :: "sid \<Rightarrow> string \<Rightarrow> jsval \<Rightarrow> time \<Rightarrow> relay \<Rightarrow> relay" where
  "on_collaboration_update c u data t st =
     (case destructure data of
        None \<Rightarrow> console_error CollaborationUpdateError st
      | Some f \<Rightarrow>
          (case template (f ''groupId'') of
             None \<Rightarrow> console_error CollaborationUpdateError st
           | Some g \<Rightarrow>
               to_emit c [JStr (''group-'' @ g)]
                 (CollaborationUpdateOut u (f ''type'') (f ''content'') t) st))"

definition on_practice_update :: "sid \<Rightarrow> string \<Rightarrow> jsval \<Rightarrow> time \<Rightarrow> relay \<Rightarrow> relay" where
  "on_practice_update c u data t st =
     (case destructure data of
        None \<Rightarrow> console_error PracticeUpdateError st
      | Some f \<Rightarrow>
          (case template (f ''sessionId'') of
             None \<Rightarrow> console_error PracticeUpdateError st
           | Some s \<Rightarrow>
               to_emit c [JStr (''session-'' @ s)]
                 (PracticeUpdateOut u (f ''progress'') (f ''accuracy'') t) st))"

definition on_typing :: "sid \<Rightarrow> string \<Rightarrow> jsval \<Rightarrow> time \<Rightarrow> relay \<Rightarrow> relay" where
  "on_typing c u data t st =
     (case destructure data of
        None \<Rightarrow> console_error TypingIndicatorError st
      | Some f \<Rightarrow> to_emit c (room_keys (f ''roomId'')) (UserTyping u t) st)"

definition on_heartbeat :: "sid \<Rightarrow> string \<Rightarrow> time \<Rightarrow> time \<Rightarrow> relay \<Rightarrow> relay" where
  "on_heartbeat c u t_seen t_ack st =
     (let st1 = (case map_of (activeUsers st) u of
                   None \<Rightarrow> st
                 | Some user \<Rightarrow>
                     st\<lparr>activeUsers := AList.update u (user\<lparr>lastSeen := t_seen\<rparr>) (activeUsers st)\<rparr>)
      in emit c (HeartbeatAck t_ack) st1)"

text \<open>
  The \<open>disconnect\<close> handler. The library has already taken the socket out of its rooms
  and out of the table when the handler runs. \<open>db_ok\<close> is the outcome of the update of the
  user store, which the handler does not await: its \<open>.catch(() => {})\<close> does nothing.
\<close>

definition on_disconnect :: "sid \<Rightarrow> string \<Rightarrow> string \<Rightarrow> time \<Rightarrow> time \<Rightarrow> bool \<Rightarrow> relay \<Rightarrow> relay" where
  "on_disconnect c u reason t_db t_off db_ok st =
     (let st0 = st\<lparr>sockets := filter (\<lambda>p. fst p \<noteq> c) (sockets st)\<rparr>;
          st1 = console_log (UserDisconnected u reason) st0;
          st2 = st1\<lparr>activeUsers := AList.delete u (activeUsers st1)\<rparr>;
          st3 = (if userModel st2
                 then (let st' = st2\<lparr>trace := trace st2 @ [DbUpdate u t_db]\<rparr>
                       in if db_ok then st' else st')
                 else st2)
      in broadcast_emit c (UserOffline u t_off) st3)"

section \<open>Events and runs\<close>

datatype event =
    Connect sid jsval time time time
  | JoinStudyGroup sid jsval time
  | CollaborationUpdate sid jsval time
  | PracticeUpdate sid jsval time
  | Typing sid jsval time
  | Heartbeat sid time time
  | Disconnect sid string time time bool

text \<open>
  Handlers exist only on connected sockets: an event named for a socket that is not in the
  table reaches no handler.
\<close>

definition with_socket :: "sid \<Rightarrow> (string \<Rightarrow> relay \<Rightarrow> relay) \<Rightarrow> relay \<Rightarrow> relay" where
  "with_socket c h st = (case map_of (sockets st) c of None \<Rightarrow> st | Some s \<Rightarrow> h (userId s) st)"

fun step :: "(jsval \<Rightarrow> decoded option) \<Rightarrow> event \<Rightarrow> relay \<Rightarrow> relay" where
  "step verify (Connect c token t1 t2 t3) st = connect verify c token t1 t2 t3 st"
| "step verify (JoinStudyGroup c groupId t) st =
     with_socket c (\<lambda>u. on_join_study_group c u groupId t) st"
| "step verify (CollaborationUpdate c data t) st =
     with_socket c (\<lambda>u. on_collaboration_update c u data t) st"
| "step verify (PracticeUpdate c data t) st =
     with_socket c (\<lambda>u. on_practice_update c u data t) st"
| "step verify (Typing c data t) st = with_socket c (\<lambda>u. on_typing c u data t) st"
| "step verify (Heartbeat c t1 t2) st = with_socket c (\<lambda>u. on_heartbeat c u t1 t2) st"
| "step verify (Disconnect c reason t1 t2 db_ok) st =
     with_socket c (\<lambda>u. on_disconnect c u reason t1 t2 db_ok) st"

fun run :: "(jsval \<Rightarrow> decoded option) \<Rightarrow> event list \<Rightarrow> relay \<Rightarrow> relay" where
  "run verify [] st = st"
| "run verify (e # es) st = run verify es (step verify e st)"

text \<open>The socket an event comes from, and whether the event is a connection attempt.\<close>

fun event_sid :: "event \<Rightarrow> sid" where
  "event_sid (Connect c _ _ _ _) = c"
| "event_sid (JoinStudyGroup c _ _) = c"
| "event_sid (CollaborationUpdate c _ _) = c"
| "event_sid (PracticeUpdate c _ _) = c"
| "event_sid (Typing c _ _) = c"
| "event_sid (Heartbeat c _ _) = c"
| "event_sid (Disconnect c _ _ _ _) = c"

fun is_Connect :: "event \<Rightarrow> bool" where
  "is_Connect (Connect _ _ _ _ _) = True"
| "is_Connect _ = False"

fun is_JoinStudyGroup :: "event \<Rightarrow> bool" where
  "is_JoinStudyGroup (JoinStudyGroup _ _ _) = True"
| "is_JoinStudyGroup _ = False"

text \<open>What a step added to the trace.\<close>

definition emitted :: "relay \<Rightarrow> relay \<Rightarrow> action list" where
  "emitted st st' = drop (length (trace st)) (trace st')"

fun is_error_packet :: "action \<Rightarrow> bool" where
  "is_error_packet (Send _ (ErrorOut _)) = True"
| "is_error_packet _ = False"

fun is_send :: "action \<Rightarrow> bool" where
  "is_send (Send _ _) = True"
| "is_send _ = False"

fun is_log_error :: "action \<Rightarrow> bool" where
  "is_log_error (LogError _) = True"
| "is_log_error _ = False"

section \<open>The service worker's dynamic cache\<close>

text \<open>
  A cache of the Cache API is a list of entries in insertion order, at most one per request:
  \<open>put\<close> removes the entry of the same request and appends the new one, \<open>keys\<close> lists
  the requests in that order, \<open>delete\<close> removes the entry of a request.
\<close>

type_synonym ('k, 'v) cache = "('k \<times> 'v) list"

definition cache_keys :: "('k, 'v) cache \<Rightarrow> 'k list" where
  "cache_keys cache = map fst cache"

definition cache_delete :: "'k \<Rightarrow> ('k, 'v) cache \<Rightarrow> ('k, 'v) cache" where
  "cache_delete k cache = filter (\<lambda>(k', v). k' \<noteq> k) cache"

definition cache_put :: "'k \<Rightarrow> 'v \<Rightarrow> ('k, 'v) cache \<Rightarrow> ('k, 'v) cache" where
  "cache_put k v cache = cache_delete k cache @ [(k, v)]"

definition cache_match :: "'k \<Rightarrow> ('k, 'v) cache \<Rightarrow> 'v option" where
  "cache_match k cache = map_of cache k"

text \<open>
  \<open>limitCacheSize\<close>, on a run where the cache operations succeed:
  \<open>keys.slice(0, keys.length - maxItems)\<close> are deleted when there are more than
  \<open>maxItems\<close> keys.
\<close>

definition limitCacheSize :: "('k, 'v) cache \<Rightarrow> nat \<Rightarrow> ('k, 'v) cache" where
  "limitCacheSize cache maxItems =
     (let keys = cache_keys cache
      in if length keys > maxItems
         then fold cache_delete (take (length keys - maxItems) keys) cache
         else cache)"

record response =
  status :: nat
  body :: string

definition ok :: "response \<Rightarrow> bool" where
  "ok r = (200 \<le> status r \<and> status r \<le> 299)"

datatype fetch_outcome = Fetched response | FetchFailed

text \<open>
  \<open>handleDynamicRequest\<close> with the dynamic cache as state. Neither
  \<open>limitCacheSize(DYNAMIC_CACHE, 50)\<close> nor \<open>cache.put(request, responseClone)\<close> is
  awaited; they take effect here in the order the statements are written.
\<close>

definition handleDynamicRequest ::
    "'k \<Rightarrow> fetch_outcome \<Rightarrow> ('k, response) cache \<Rightarrow> response \<times> ('k, response) cache" where
  "handleDynamicRequest request outcome cache =
     (case outcome of
        Fetched resp \<Rightarrow>
          if ok resp then (resp, cache_put request resp (limitCacheSize cache 50))
          else (resp, cache)
      | FetchFailed \<Rightarrow>
          (case cache_match request cache of
             Some cached \<Rightarrow> (cached, cache)
           | None \<Rightarrow> (\<lparr>status = 503, body = ''Resource not available offline''\<rparr>, cache)))"

section \<open>Sample inputs\<close>

text \<open>A verifier that accepts one token for each of two users.\<close>

definition verify_fixture :: "jsval \<Rightarrow> decoded option" where
  "verify_fixture tok =
     (if tok = JStr ''token-u1'' then Some \<lparr>d_userId = ''u1'', d_email = ''u1@example.org''\<rparr>
      else if tok = JStr ''token-u2'' then Some \<lparr>d_userId = ''u2'', d_email = ''u2@example.org''\<rparr>
      else None)"

text \<open>Two users connected, one socket each.\<close>

definition two_users :: relay where
  "two_users =
     run verify_fixture
       [Connect ''s1'' (JStr ''token-u1'') 10 10 10, Connect ''s2'' (JStr ''token-u2'') 20 20 20]
       (init True)"

text \<open>The second user has joined study group \<open>g1\<close>.\<close>

definition one_in_g1 :: relay where
  "one_in_g1 = step verify_fixture (JoinStudyGroup ''s2'' (JStr ''g1'') 30) two_users"

text \<open>The second user has joined a study group whose id is the string \<open>undefined\<close>.\<close>

definition one_in_group_undefined :: relay where
  "one_in_group_undefined =
     step verify_fixture (JoinStudyGroup ''s2'' (JStr ''undefined'') 30) two_users"

text \<open>The second user has joined a study group whose id is the name of its personal room.\<close>

definition one_in_group_user_u2 :: relay where
  "one_in_group_user_u2 =
     step verify_fixture (JoinStudyGroup ''s2'' (JStr ''user-u2'') 30) two_users"

text \<open>
  One user whose client has reconnected on a second socket before the server noticed that
  the first one was dead.
\<close>

definition stale_socket_closed :: relay where
  "stale_socket_closed =
     run verify_fixture
       [Connect ''s1'' (JStr ''token-u1'') 10 10 10, Connect ''s2'' (JStr ''token-u1'') 20 20 20,
        Disconnect ''s1'' ''ping timeout'' 30 30 True]
       (init True)"

text \<open>A dynamic cache that holds fifty entries, and a successful response.\<close>

definition response_ok :: response where
  "response_ok = \<lparr>status = 200, body = ''ok''\<rparr>"

definition full_cache :: "(nat, response) cache" where
  "full_cache = map (\<lambda>i. (i, response_ok)) [0..<50]"

section \<open>Basic facts\<close>

lemma with_socket_absent: "\<not> connected st c \<Longrightarrow> with_socket c h st = st"
  using map_of_eq_None_iff [of "sockets st" c] by (simp add: with_socket_def connected_def)

lemma step_absent:
  "\<not> connected st c \<Longrightarrow> event_sid ev = c \<Longrightarrow> \<not> is_Connect ev \<Longrightarrow> step verify ev st = st"
  by (cases ev) (simp_all add: with_socket_absent)

lemmas relay_defs = connect_def io_use_def on_connection_def console_log_def console_error_def
  emit_def socket_join_def to_emit_def broadcast_emit_def recipients_def with_socket_def
  on_join_study_group_def on_collaboration_update_def on_practice_update_def on_typing_def
  on_heartbeat_def on_disconnect_def init_def verify_fixture_def

lemma two_users_eq:
  "two_users =
     \<lparr>sockets = [(''s1'', \<lparr>userId = ''u1'', userEmail = ''u1@example.org'', rooms = {''user-u1'', ''s1''}\<rparr>),
                 (''s2'', \<lparr>userId = ''u2'', userEmail = ''u2@example.org'', rooms = {''user-u2'', ''s2''}\<rparr>)],
      activeUsers = [(''u1'', \<lparr>socketId = ''s1'', connectedAt = 10, lastSeen = 10\<rparr>),
                     (''u2'', \<lparr>socketId = ''s2'', connectedAt = 20, lastSeen = 20\<rparr>)],
      userModel = True,
      trace = [Log (UserConnected ''u1''), Log (UserConnected ''u2''), Send ''s1'' (UserOnline ''u2'' 20)]\<rparr>"
  by (simp add: two_users_def relay_defs connected_def Let_def)

lemma fst_add_room: "fst (add_room c r p) = fst p"
  by (cases p) simp

lemma targeted_add_room: "targeted c keys (add_room c r p) = targeted c keys p"
  by (cases p) simp

lemma in_room_add_room: "in_room r' (add_room c r p) = (in_room r' p \<or> (r' = r \<and> fst p = c))"
  by (cases p) auto

lemma targeted_room: "targeted c [JStr r] p = (fst p \<noteq> c \<and> in_room r p)"
  by (cases p) simp

lemma targeted_all: "targeted c [] p = (fst p \<noteq> c)"
  by (cases p) simp

lemma recipients_socket_join: "recipients c keys (socket_join c r st) = recipients c keys st"
  by (simp add: recipients_def socket_join_def filter_map comp_def targeted_add_room fst_add_room)

lemma set_recipients_room: "set (recipients c [JStr r] st) = members st r - {c}"
  by (auto simp: recipients_def members_def targeted_room)

lemma members_socket_join_same:
  "connected st c \<Longrightarrow> members (socket_join c r st) r = insert c (members st r)"
  by (auto simp: members_def socket_join_def connected_def filter_map comp_def in_room_add_room
        fst_add_room image_iff)

lemma members_socket_join_other:
  "r' \<noteq> r \<Longrightarrow> members (socket_join c r st) r' = members st r'"
  by (simp add: members_def socket_join_def filter_map comp_def in_room_add_room fst_add_room)

lemma with_socket_Some: "map_of (sockets st) c = Some s \<Longrightarrow> with_socket c h st = h (userId s) st"
  by (simp add: with_socket_def)

lemma map_of_connected: "map_of (sockets st) c = Some s \<Longrightarrow> connected st c"
  by (auto simp: connected_def dest: map_of_SomeD intro: rev_image_eqI)

lemma one_in_g1_eq:
  "one_in_g1 =
     \<lparr>sockets = [(''s1'', \<lparr>userId = ''u1'', userEmail = ''u1@example.org'', rooms = {''user-u1'', ''s1''}\<rparr>),
                 (''s2'', \<lparr>userId = ''u2'', userEmail = ''u2@example.org'',
                           rooms = {''group-g1'', ''user-u2'', ''s2''}\<rparr>)],
      activeUsers = [(''u1'', \<lparr>socketId = ''s1'', connectedAt = 10, lastSeen = 10\<rparr>),
                     (''u2'', \<lparr>socketId = ''s2'', connectedAt = 20, lastSeen = 20\<rparr>)],
      userModel = True,
      trace = [Log (UserConnected ''u1''), Log (UserConnected ''u2''), Send ''s1'' (UserOnline ''u2'' 20),
               Log (UserJoinedStudyGroup ''u2'' ''g1'')]\<rparr>"
  by (simp add: one_in_g1_def two_users_eq relay_defs Let_def)

lemma stale_socket_closed_eq:
  "stale_socket_closed =
     \<lparr>sockets = [(''s2'', \<lparr>userId = ''u1'', userEmail = ''u1@example.org'', rooms = {''user-u1'', ''s2''}\<rparr>)],
      activeUsers = [],
      userModel = True,
      trace = [Log (UserConnected ''u1''), Log (UserConnected ''u1''), Send ''s1'' (UserOnline ''u1'' 20),
               Log (UserDisconnected ''u1'' ''ping timeout''), DbUpdate ''u1'' 30,
               Send ''s2'' (UserOffline ''u1'' 30)]\<rparr>"
  by (simp add: stale_socket_closed_def relay_defs connected_def Let_def)

lemma one_in_group_undefined_eq:
  "one_in_group_undefined =
     \<lparr>sockets = [(''s1'', \<lparr>userId = ''u1'', userEmail = ''u1@example.org'', rooms = {''user-u1'', ''s1''}\<rparr>),
                 (''s2'', \<lparr>userId = ''u2'', userEmail = ''u2@example.org'',
                           rooms = {''group-undefined'', ''user-u2'', ''s2''}\<rparr>)],
      activeUsers = [(''u1'', \<lparr>socketId = ''s1'', connectedAt = 10, lastSeen = 10\<rparr>),
                     (''u2'', \<lparr>socketId = ''s2'', connectedAt = 20, lastSeen = 20\<rparr>)],
      userModel = True,
      trace = [Log (UserConnected ''u1''), Log (UserConnected ''u2''), Send ''s1'' (UserOnline ''u2'' 20),
               Log (UserJoinedStudyGroup ''u2'' ''undefined'')]\<rparr>"
  by (simp add: one_in_group_undefined_def two_users_eq relay_defs Let_def)

lemma one_in_group_user_u2_eq:
  "one_in_group_user_u2 =
     \<lparr>sockets = [(''s1'', \<lparr>userId = ''u1'', userEmail = ''u1@example.org'', rooms = {''user-u1'', ''s1''}\<rparr>),
                 (''s2'', \<lparr>userId = ''u2'', userEmail = ''u2@example.org'',
                           rooms = {''group-user-u2'', ''user-u2'', ''s2''}\<rparr>)],
      activeUsers = [(''u1'', \<lparr>socketId = ''s1'', connectedAt = 10, lastSeen = 10\<rparr>),
                     (''u2'', \<lparr>socketId = ''s2'', connectedAt = 20, lastSeen = 20\<rparr>)],
      userModel = True,
      trace = [Log (UserConnected ''u1''), Log (UserConnected ''u2''), Send ''s1'' (UserOnline ''u2'' 20),
               Log (UserJoinedStudyGroup ''u2'' ''user-u2'')]\<rparr>"
  by (simp add: one_in_group_user_u2_def two_users_eq relay_defs Let_def)

section \<open>Connection gate\<close>

text \<open>
  C4. A connection attempt whose handshake has no token is refused with the no-token error,
  and one whose token fails verification is refused with the invalid-token error. A refused
  attempt leaves the presence registry and the table of sockets as they were, and no handler
  ever runs for it: every later event named for that socket changes nothing. An empty
  string, like every falsy value, counts as no token.
\<close>

theorem gate_refuses_bad_credentials:
  assumes "\<not> connected st c"
  shows "(\<not> truthy token \<longrightarrow>
            connect verify c token t1 t2 t3 st = st\<lparr>trace := trace st @ [Refuse c NoTokenProvided]\<rparr>)
       \<and> (truthy token \<and> verify token = None \<longrightarrow>
            connect verify c token t1 t2 t3 st =
              st\<lparr>trace := trace st @ [LogError SocketAuthError, Refuse c InvalidToken]\<rparr>)
       \<and> (\<forall>e. io_use verify token = Inl e \<longrightarrow>
            activeUsers (connect verify c token t1 t2 t3 st) = activeUsers st
          \<and> sockets (connect verify c token t1 t2 t3 st) = sockets st
          \<and> (\<forall>ev. event_sid ev = c \<and> \<not> is_Connect ev \<longrightarrow>
                 step verify ev (connect verify c token t1 t2 t3 st)
                   = connect verify c token t1 t2 t3 st))"
proof (intro conjI impI allI)
  assume "\<not> truthy token"
  with assms show "connect verify c token t1 t2 t3 st = st\<lparr>trace := trace st @ [Refuse c NoTokenProvided]\<rparr>"
    by (simp add: connect_def io_use_def)
next
  assume "truthy token \<and> verify token = None"
  with assms show "connect verify c token t1 t2 t3 st =
      st\<lparr>trace := trace st @ [LogError SocketAuthError, Refuse c InvalidToken]\<rparr>"
    by (simp add: connect_def io_use_def console_error_def)
next
  fix e assume e: "io_use verify token = Inl e"
  let ?st = "connect verify c token t1 t2 t3 st"
  show "activeUsers ?st = activeUsers st"
    using assms e by (cases e) (simp_all add: connect_def console_error_def)
  show s: "sockets ?st = sockets st"
    using assms e by (cases e) (simp_all add: connect_def console_error_def)
  fix ev assume "event_sid ev = c \<and> \<not> is_Connect ev"
  moreover from s assms have "\<not> connected ?st c" by (simp add: connected_def)
  ultimately show "step verify ev ?st = ?st" by (simp add: step_absent)
qed

theorem gate_refuses_bad_credentials_witness:
  "\<not> connected (init True) ''s1''
   \<and> \<not> truthy JUndefined
   \<and> connect verify_fixture ''s1'' JUndefined 1 2 3 (init True)
       = \<lparr>sockets = [], activeUsers = [], userModel = True, trace = [Refuse ''s1'' NoTokenProvided]\<rparr>
   \<and> truthy (JStr ''forged'') \<and> verify_fixture (JStr ''forged'') = None
   \<and> connect verify_fixture ''s1'' (JStr ''forged'') 1 2 3 (init True)
       = \<lparr>sockets = [], activeUsers = [], userModel = True,
          trace = [LogError SocketAuthError, Refuse ''s1'' InvalidToken]\<rparr>
   \<and> io_use verify_fixture (JStr ''forged'') = Inl InvalidToken
   \<and> step verify_fixture (Heartbeat ''s1'' 4 5)
        (connect verify_fixture ''s1'' (JStr ''forged'') 1 2 3 (init True))
       = connect verify_fixture ''s1'' (JStr ''forged'') 1 2 3 (init True)"
proof -
  have h: "\<not> connected (init True) ''s1''" by (simp add: connected_def init_def)
  have a: "\<not> truthy JUndefined" by simp
  have b: "truthy (JStr ''forged'') \<and> verify_fixture (JStr ''forged'') = None"
    by (simp add: verify_fixture_def)
  have i: "io_use verify_fixture (JStr ''forged'') = Inl InvalidToken"
    by (simp add: io_use_def verify_fixture_def)
  note t1 = gate_refuses_bad_credentials [OF h, of JUndefined verify_fixture 1 2 3]
  note t2 = gate_refuses_bad_credentials [OF h, of "JStr ''forged''" verify_fixture 1 2 3]
  from t1 a have r1: "connect verify_fixture ''s1'' JUndefined 1 2 3 (init True)
       = (init True)\<lparr>trace := trace (init True) @ [Refuse ''s1'' NoTokenProvided]\<rparr>" by blast
  from t2 b have r2: "connect verify_fixture ''s1'' (JStr ''forged'') 1 2 3 (init True)
       = (init True)\<lparr>trace := trace (init True) @ [LogError SocketAuthError, Refuse ''s1'' InvalidToken]\<rparr>"
    by blast
  from t2 i have r3: "step verify_fixture (Heartbeat ''s1'' 4 5)
        (connect verify_fixture ''s1'' (JStr ''forged'') 1 2 3 (init True))
       = connect verify_fixture ''s1'' (JStr ''forged'') 1 2 3 (init True)"
    by (simp del: step.simps)
  show ?thesis using h a b i r1 r2 r3 by (simp add: init_def)
qed

section \<open>Joining a study group\<close>

text \<open>
  C1. When a connected socket sends \<open>join-study-group\<close> for a group whose id names the
  room \<open>group-g\<close>, the socket is a member of that room afterwards, the other members are
  as before, and the handler hands one \<open>user-joined-group\<close> packet, carrying the sender's
  user id, the group id as sent and the time, to each socket that was a member of the room
  other than the sender, and no packet to anybody else.
\<close>

theorem join_study_group_notifies_other_members:
  assumes "map_of (sockets st) c = Some s" and "template groupId = Some g"
  shows "c \<in> members (step verify (JoinStudyGroup c groupId t) st) (''group-'' @ g)
       \<and> members (step verify (JoinStudyGroup c groupId t) st) (''group-'' @ g)
           = insert c (members st (''group-'' @ g))
       \<and> emitted st (step verify (JoinStudyGroup c groupId t) st)
           = map (\<lambda>i. Send i (UserJoinedGroup (userId s) groupId t))
                 (recipients c [JStr (''group-'' @ g)] st)
             @ [Log (UserJoinedStudyGroup (userId s) g)]
       \<and> set (recipients c [JStr (''group-'' @ g)] st) = members st (''group-'' @ g) - {c}"
proof -
  let ?R = "''group-'' @ g"
  have st': "step verify (JoinStudyGroup c groupId t) st
      = console_log (UserJoinedStudyGroup (userId s) g)
          (to_emit c [JStr ?R] (UserJoinedGroup (userId s) groupId t) (socket_join c ?R st))"
    using assms by (simp add: with_socket_Some on_join_study_group_def)
  have m: "members (step verify (JoinStudyGroup c groupId t) st) ?R = members (socket_join c ?R st) ?R"
    unfolding st' by (simp add: members_def console_log_def to_emit_def)
  have m2: "members (socket_join c ?R st) ?R = insert c (members st ?R)"
    using members_socket_join_same [OF map_of_connected [OF assms(1)]] by simp
  have e: "emitted st (step verify (JoinStudyGroup c groupId t) st)
      = map (\<lambda>i. Send i (UserJoinedGroup (userId s) groupId t)) (recipients c [JStr ?R] st)
        @ [Log (UserJoinedStudyGroup (userId s) g)]"
    unfolding st' 
    by (simp add: emitted_def console_log_def to_emit_def recipients_socket_join)
       (simp add: socket_join_def)
  show ?thesis using m m2 e set_recipients_room by simp
qed

theorem join_study_group_notifies_other_members_witness:
  "map_of (sockets one_in_g1) ''s1''
     = Some \<lparr>userId = ''u1'', userEmail = ''u1@example.org'', rooms = {''user-u1'', ''s1''}\<rparr>
   \<and> template (JStr ''g1'') = Some ''g1''
   \<and> ''s1'' \<in> members (step verify_fixture (JoinStudyGroup ''s1'' (JStr ''g1'') 40) one_in_g1) ''group-g1''
   \<and> members (step verify_fixture (JoinStudyGroup ''s1'' (JStr ''g1'') 40) one_in_g1) ''group-g1''
       = {''s1'', ''s2''}
   \<and> emitted one_in_g1 (step verify_fixture (JoinStudyGroup ''s1'' (JStr ''g1'') 40) one_in_g1)
       = [Send ''s2'' (UserJoinedGroup ''u1'' (JStr ''g1'') 40), Log (UserJoinedStudyGroup ''u1'' ''g1'')]"
proof -
  have h1: "map_of (sockets one_in_g1) ''s1''
     = Some \<lparr>userId = ''u1'', userEmail = ''u1@example.org'', rooms = {''user-u1'', ''s1''}\<rparr>"
    by (simp add: one_in_g1_eq)
  have h2: "template (JStr ''g1'') = Some ''g1''" by simp
  have r: "recipients ''s1'' [JStr ''group-g1''] one_in_g1 = [''s2'']"
    by (simp add: one_in_g1_eq recipients_def)
  have m: "members one_in_g1 ''group-g1'' = {''s2''}"
    by (simp add: one_in_g1_eq members_def)
  note t = join_study_group_notifies_other_members [OF h1 h2, of verify_fixture 40]
  show ?thesis using h1 h2 t r m by simp
qed

section \<open>Disconnection\<close>

lemma emitted_append: "trace st' = trace st @ xs \<Longrightarrow> emitted st st' = xs"
  by (simp add: emitted_def)

lemma on_disconnect_sockets:
  "sockets (on_disconnect c u reason t_db t_off db_ok st) = filter (\<lambda>p. fst p \<noteq> c) (sockets st)"
  by (simp add: on_disconnect_def Let_def broadcast_emit_def to_emit_def console_log_def)

lemma on_disconnect_activeUsers:
  "activeUsers (on_disconnect c u reason t_db t_off db_ok st) = AList.delete u (activeUsers st)"
  by (simp add: on_disconnect_def Let_def broadcast_emit_def to_emit_def console_log_def)

lemma on_disconnect_trace:
  "trace (on_disconnect c u reason t_db t_off db_ok st)
     = trace st @ Log (UserDisconnected u reason)
         # (if userModel st then [DbUpdate u t_db] else [])
         @ map (\<lambda>i. Send i (UserOffline u t_off)) (map fst (filter (\<lambda>p. fst p \<noteq> c) (sockets st)))"
  by (simp add: on_disconnect_def Let_def broadcast_emit_def to_emit_def console_log_def
        recipients_def targeted_all)

text \<open>
  C2, as the code has it. When a connected socket disconnects, for whatever reason and
  whatever becomes of the update of the user store: the socket is gone from the table and
  from every room, the presence entry of its user id is removed, and the handler logs the
  disconnection, then calls the user store (when the \<open>User\<close> model exists), then hands a
  \<open>user-offline\<close> packet to every socket that remains connected. Nothing else is logged
  or sent: a failed update of the user store leaves no trace.
\<close>

theorem disconnect_teardown:
  assumes "map_of (sockets st) c = Some s"
  shows "(let st' = step verify (Disconnect c reason t_db t_off db_ok) st in
          \<not> connected st' c
        \<and> (\<forall>r. c \<notin> members st' r)
        \<and> sockets st' = filter (\<lambda>p. fst p \<noteq> c) (sockets st)
        \<and> map_of (activeUsers st') (userId s) = None
        \<and> emitted st st'
            = Log (UserDisconnected (userId s) reason)
              # (if userModel st then [DbUpdate (userId s) t_db] else [])
              @ map (\<lambda>i. Send i (UserOffline (userId s) t_off)) (map fst (sockets st')))"
proof -
  let ?st' = "on_disconnect c (userId s) reason t_db t_off db_ok st"
  have st': "step verify (Disconnect c reason t_db t_off db_ok) st = ?st'"
    using assms by (simp add: with_socket_Some)
  have a: "\<not> connected ?st' c"
    by (auto simp: connected_def on_disconnect_sockets)
  have b: "c \<notin> members ?st' r" for r
    by (auto simp: members_def on_disconnect_sockets)
  have d: "map_of (activeUsers ?st') (userId s) = None"
    by (simp add: on_disconnect_activeUsers delete_conv')
  have e: "emitted st ?st'
            = Log (UserDisconnected (userId s) reason)
              # (if userModel st then [DbUpdate (userId s) t_db] else [])
              @ map (\<lambda>i. Send i (UserOffline (userId s) t_off)) (map fst (sockets ?st'))"
    by (rule emitted_append) (simp add: on_disconnect_trace on_disconnect_sockets)
  show ?thesis
    unfolding Let_def st' using a b d e on_disconnect_sockets by blast
qed

theorem disconnect_teardown_witness:
  "map_of (sockets two_users) ''s1''
     = Some \<lparr>userId = ''u1'', userEmail = ''u1@example.org'', rooms = {''user-u1'', ''s1''}\<rparr>
   \<and> \<not> connected (step verify_fixture (Disconnect ''s1'' ''ping timeout'' 30 31 True) two_users) ''s1''
   \<and> map_of (activeUsers (step verify_fixture (Disconnect ''s1'' ''ping timeout'' 30 31 True) two_users))
        ''u1'' = None
   \<and> emitted two_users (step verify_fixture (Disconnect ''s1'' ''ping timeout'' 30 31 True) two_users)
       = [Log (UserDisconnected ''u1'' ''ping timeout''), DbUpdate ''u1'' 30,
          Send ''s2'' (UserOffline ''u1'' 31)]"
proof -
  have h: "map_of (sockets two_users) ''s1''
     = Some \<lparr>userId = ''u1'', userEmail = ''u1@example.org'', rooms = {''user-u1'', ''s1''}\<rparr>"
    by (simp add: two_users_eq)
  have um: "userModel two_users" by (simp add: two_users_eq)
  have f: "map fst (filter (\<lambda>p. fst p \<noteq> ''s1'') (sockets two_users)) = [''s2'']"
    by (simp add: two_users_eq)
  note t = disconnect_teardown [OF h, of verify_fixture "''ping timeout''" 30 31 True, unfolded Let_def]
  from t have a: "\<not> connected (step verify_fixture (Disconnect ''s1'' ''ping timeout'' 30 31 True) two_users) ''s1''"
    by blast
  from t have b: "map_of (activeUsers (step verify_fixture (Disconnect ''s1'' ''ping timeout'' 30 31 True) two_users))
        (userId \<lparr>userId = ''u1'', userEmail = ''u1@example.org'', rooms = {''user-u1'', ''s1''}\<rparr>) = None"
    by blast
  from t have s: "sockets (step verify_fixture (Disconnect ''s1'' ''ping timeout'' 30 31 True) two_users)
      = filter (\<lambda>p. fst p \<noteq> ''s1'') (sockets two_users)"
    by blast
  from t have e: "emitted two_users (step verify_fixture (Disconnect ''s1'' ''ping timeout'' 30 31 True) two_users)
      = Log (UserDisconnected (userId \<lparr>userId = ''u1'', userEmail = ''u1@example.org'', rooms = {''user-u1'', ''s1''}\<rparr>) ''ping timeout'')
        # (if userModel two_users then [DbUpdate (userId \<lparr>userId = ''u1'', userEmail = ''u1@example.org'', rooms = {''user-u1'', ''s1''}\<rparr>) 30] else [])
        @ map (\<lambda>i. Send i (UserOffline (userId \<lparr>userId = ''u1'', userEmail = ''u1@example.org'', rooms = {''user-u1'', ''s1''}\<rparr>) 31))
            (map fst (sockets (step verify_fixture (Disconnect ''s1'' ''ping timeout'' 30 31 True) two_users)))"
    by blast
  have e': "emitted two_users (step verify_fixture (Disconnect ''s1'' ''ping timeout'' 30 31 True) two_users)
       = [Log (UserDisconnected ''u1'' ''ping timeout''), DbUpdate ''u1'' 30,
          Send ''s2'' (UserOffline ''u1'' 31)]"
    unfolding e s f using um by simp
  from b have b': "map_of (activeUsers (step verify_fixture (Disconnect ''s1'' ''ping timeout'' 30 31 True) two_users))
        ''u1'' = None"
    by (simp del: step.simps)
  show ?thesis using h a b' e' by blast
qed

text \<open>
  C2 as stated fails: with two users connected and the update of the user store failing,
  the disconnection of the first logs no error, and the call of the user store comes before
  the broadcast, not after it.
\<close>

theorem disconnect_failure_not_logged:
  "emitted two_users
     (step verify_fixture (Disconnect ''s1'' ''transport close'' 30 31 False) two_users)
   = [Log (UserDisconnected ''u1'' ''transport close''), DbUpdate ''u1'' 30,
      Send ''s2'' (UserOffline ''u1'' 31)]
   \<and> \<not> list_ex is_log_error
         (emitted two_users
            (step verify_fixture (Disconnect ''s1'' ''transport close'' 30 31 False) two_users))"
  by (simp add: two_users_eq with_socket_def emitted_def on_disconnect_trace)

section \<open>Heartbeat\<close>

lemma on_heartbeat_trace:
  "trace (on_heartbeat c u t_seen t_ack st) = trace st @ [Send c (HeartbeatAck t_ack)]"
  by (simp add: on_heartbeat_def Let_def emit_def split: option.splits)

lemma on_heartbeat_sockets: "sockets (on_heartbeat c u t_seen t_ack st) = sockets st"
  by (simp add: on_heartbeat_def Let_def emit_def split: option.splits)

lemma on_heartbeat_activeUsers:
  "activeUsers (on_heartbeat c u t_seen t_ack st)
     = (case map_of (activeUsers st) u of
          None \<Rightarrow> activeUsers st
        | Some user \<Rightarrow> AList.update u (user\<lparr>lastSeen := t_seen\<rparr>) (activeUsers st))"
  by (simp add: on_heartbeat_def Let_def emit_def split: option.splits)

lemma map_of_keys: "map_of al k = Some v \<Longrightarrow> k \<in> set (map fst al)"
  by (metis map_of_eq_None_iff option.distinct(1) set_map)

text \<open>
  C6, as the code has it. A heartbeat from a connected socket is answered by one
  \<open>heartbeat-ack\<close> packet with the server's time, handed to that socket and to no other.
  It never adds a key to the presence registry, and changes nothing there when the socket's
  user id has no entry. When there is an entry, its \<open>lastSeen\<close> becomes the time read by
  the handler, so that of two successive heartbeats the second, when its time is read later
  than the first's, leaves a strictly later \<open>lastSeen\<close> than the first.
\<close>

theorem heartbeat_ack_and_touch:
  assumes "map_of (sockets st) c = Some s"
  shows "emitted st (step verify (Heartbeat c t_seen t_ack) st) = [Send c (HeartbeatAck t_ack)]
       \<and> map fst (activeUsers (step verify (Heartbeat c t_seen t_ack) st)) = map fst (activeUsers st)
       \<and> (map_of (activeUsers st) (userId s) = None \<longrightarrow>
            activeUsers (step verify (Heartbeat c t_seen t_ack) st) = activeUsers st)
       \<and> (\<forall>p. map_of (activeUsers st) (userId s) = Some p \<longrightarrow>
            map_of (activeUsers (step verify (Heartbeat c t_seen t_ack) st)) (userId s)
              = Some (p\<lparr>lastSeen := t_seen\<rparr>))
       \<and> (\<forall>p t_seen' t_ack'. map_of (activeUsers st) (userId s) = Some p \<and> t_seen < t_seen' \<longrightarrow>
            (\<exists>p1 p2.
               map_of (activeUsers (step verify (Heartbeat c t_seen t_ack) st)) (userId s) = Some p1
             \<and> map_of (activeUsers (step verify (Heartbeat c t_seen' t_ack')
                                       (step verify (Heartbeat c t_seen t_ack) st))) (userId s) = Some p2
             \<and> lastSeen p1 < lastSeen p2))"
proof -
  let ?u = "userId s"
  have hb: "step verify (Heartbeat c a b) st = on_heartbeat c ?u a b st" for a b
    using assms by (simp add: with_socket_Some)
  have hb2: "step verify (Heartbeat c a' b') (on_heartbeat c ?u a b st)
               = on_heartbeat c ?u a' b' (on_heartbeat c ?u a b st)" for a b a' b'
    using assms by (simp add: with_socket_def on_heartbeat_sockets)
  have e: "emitted st (on_heartbeat c ?u t_seen t_ack st) = [Send c (HeartbeatAck t_ack)]"
    by (rule emitted_append) (simp add: on_heartbeat_trace)
  have k: "map fst (activeUsers (on_heartbeat c ?u t_seen t_ack st)) = map fst (activeUsers st)"
    by (simp add: on_heartbeat_activeUsers update_keys map_of_eq_None_iff split: option.splits)
  have n: "map_of (activeUsers st) ?u = None \<Longrightarrow>
           activeUsers (on_heartbeat c ?u t_seen t_ack st) = activeUsers st"
    by (simp add: on_heartbeat_activeUsers)
  have t: "map_of (activeUsers st) ?u = Some p \<Longrightarrow>
           map_of (activeUsers (on_heartbeat c ?u a b st)) ?u = Some (p\<lparr>lastSeen := a\<rparr>)" for p a b st
    by (simp add: on_heartbeat_activeUsers update_conv')
  have two: "\<exists>p1 p2.
               map_of (activeUsers (on_heartbeat c ?u t_seen t_ack st)) ?u = Some p1
             \<and> map_of (activeUsers (on_heartbeat c ?u t_seen' t_ack'
                                       (on_heartbeat c ?u t_seen t_ack st))) ?u = Some p2
             \<and> lastSeen p1 < lastSeen p2"
    if "map_of (activeUsers st) ?u = Some p" "t_seen < t_seen'" for p t_seen' t_ack'
  proof -
    have 1: "map_of (activeUsers (on_heartbeat c ?u t_seen t_ack st)) ?u = Some (p\<lparr>lastSeen := t_seen\<rparr>)"
      using that(1) by (rule t)
    have 2: "map_of (activeUsers (on_heartbeat c ?u t_seen' t_ack' (on_heartbeat c ?u t_seen t_ack st))) ?u
               = Some (p\<lparr>lastSeen := t_seen, lastSeen := t_seen'\<rparr>)"
      using 1 by (rule t)
    show ?thesis using 1 2 that(2) by simp
  qed
  show ?thesis
    unfolding hb hb2 using e k n t two by blast
qed

theorem heartbeat_ack_and_touch_witness:
  "map_of (sockets two_users) ''s1''
     = Some \<lparr>userId = ''u1'', userEmail = ''u1@example.org'', rooms = {''user-u1'', ''s1''}\<rparr>
   \<and> map_of (activeUsers two_users) ''u1'' = Some \<lparr>socketId = ''s1'', connectedAt = 10, lastSeen = 10\<rparr>
   \<and> emitted two_users (step verify_fixture (Heartbeat ''s1'' 30 31) two_users)
       = [Send ''s1'' (HeartbeatAck 31)]
   \<and> map_of (activeUsers (step verify_fixture (Heartbeat ''s1'' 30 31) two_users)) ''u1''
       = Some \<lparr>socketId = ''s1'', connectedAt = 10, lastSeen = 30\<rparr>
   \<and> (30::int) < 60
   \<and> (\<exists>p1 p2.
         map_of (activeUsers (step verify_fixture (Heartbeat ''s1'' 30 31) two_users)) ''u1'' = Some p1
       \<and> map_of (activeUsers (step verify_fixture (Heartbeat ''s1'' 60 61)
                                 (step verify_fixture (Heartbeat ''s1'' 30 31) two_users))) ''u1'' = Some p2
       \<and> lastSeen p1 < lastSeen p2)
   \<and> map_of (sockets stale_socket_closed) ''s2''
     = Some \<lparr>userId = ''u1'', userEmail = ''u1@example.org'', rooms = {''user-u1'', ''s2''}\<rparr>
   \<and> map_of (activeUsers stale_socket_closed) ''u1'' = None
   \<and> activeUsers (step verify_fixture (Heartbeat ''s2'' 40 41) stale_socket_closed) = []"
proof -
  have h: "map_of (sockets two_users) ''s1''
     = Some \<lparr>userId = ''u1'', userEmail = ''u1@example.org'', rooms = {''user-u1'', ''s1''}\<rparr>"
    by (simp add: two_users_eq)
  have p: "map_of (activeUsers two_users) ''u1'' = Some \<lparr>socketId = ''s1'', connectedAt = 10, lastSeen = 10\<rparr>"
    by (simp add: two_users_eq)
  have h': "map_of (sockets stale_socket_closed) ''s2''
     = Some \<lparr>userId = ''u1'', userEmail = ''u1@example.org'', rooms = {''user-u1'', ''s2''}\<rparr>"
    by (simp add: stale_socket_closed_eq)
  have n: "map_of (activeUsers stale_socket_closed) ''u1'' = None"
    by (simp add: stale_socket_closed_eq)
  have a: "activeUsers stale_socket_closed = []"
    by (simp add: stale_socket_closed_eq)
  note t = heartbeat_ack_and_touch [OF h, of verify_fixture 30 31]
  note t' = heartbeat_ack_and_touch [OF h', of verify_fixture 40 41]
  have u: "userId \<lparr>userId = ''u1'', userEmail = ''u1@example.org'', rooms = {''user-u1'', ''s1''}\<rparr> = ''u1''"
    and u': "userId \<lparr>userId = ''u1'', userEmail = ''u1@example.org'', rooms = {''user-u1'', ''s2''}\<rparr> = ''u1''"
    by simp_all
  note t = t [unfolded u] and t' = t' [unfolded u']
  from t have 1: "emitted two_users (step verify_fixture (Heartbeat ''s1'' 30 31) two_users)
       = [Send ''s1'' (HeartbeatAck 31)]" by blast
  from t p have "map_of (activeUsers (step verify_fixture (Heartbeat ''s1'' 30 31) two_users)) ''u1''
       = Some (\<lparr>socketId = ''s1'', connectedAt = 10, lastSeen = 10\<rparr>\<lparr>lastSeen := 30\<rparr>)" by blast
  then have 2: "map_of (activeUsers (step verify_fixture (Heartbeat ''s1'' 30 31) two_users)) ''u1''
       = Some \<lparr>socketId = ''s1'', connectedAt = 10, lastSeen = 30\<rparr>" by (simp del: step.simps)
  have lt: "(30::int) < 60" by simp
  from t p lt have 3: "\<exists>p1 p2.
         map_of (activeUsers (step verify_fixture (Heartbeat ''s1'' 30 31) two_users)) ''u1'' = Some p1
       \<and> map_of (activeUsers (step verify_fixture (Heartbeat ''s1'' 60 61)
                                 (step verify_fixture (Heartbeat ''s1'' 30 31) two_users))) ''u1'' = Some p2
       \<and> lastSeen p1 < lastSeen p2"
    by blast
  from t' n have "activeUsers (step verify_fixture (Heartbeat ''s2'' 40 41) stale_socket_closed)
       = activeUsers stale_socket_closed" by blast
  with a have 4: "activeUsers (step verify_fixture (Heartbeat ''s2'' 40 41) stale_socket_closed) = []"
    by (simp del: step.simps)
  show ?thesis using h p 1 2 lt 3 h' n 4 by blast
qed

text \<open>
  C6 as stated fails when the clock has not advanced: two heartbeats handled within the
  same millisecond read the same time, and the second leaves \<open>lastSeen\<close> as the first
  left it, not strictly later.
\<close>

theorem heartbeats_in_same_millisecond:
  "map_of (activeUsers (step verify_fixture (Heartbeat ''s1'' 30 30) two_users)) ''u1''
     = Some \<lparr>socketId = ''s1'', connectedAt = 10, lastSeen = 30\<rparr>
   \<and> map_of (activeUsers (step verify_fixture (Heartbeat ''s1'' 30 30)
                            (step verify_fixture (Heartbeat ''s1'' 30 30) two_users))) ''u1''
     = Some \<lparr>socketId = ''s1'', connectedAt = 10, lastSeen = 30\<rparr>"
  by (simp add: two_users_eq with_socket_def on_heartbeat_def emit_def Let_def)

section \<open>Presence of a user with several sockets\<close>

text \<open>
  C3 at a run the code can make: a user's client reconnects on a second socket, and the
  first socket then times out. The second socket is still connected, and the registry has no
  entry for the user.
\<close>

theorem presence_removed_while_socket_remains:
  "map_of (sockets stale_socket_closed) ''s2''
     = Some \<lparr>userId = ''u1'', userEmail = ''u1@example.org'', rooms = {''user-u1'', ''s2''}\<rparr>
   \<and> connected stale_socket_closed ''s2''
   \<and> map_of (activeUsers stale_socket_closed) ''u1'' = None"
  by (simp add: stale_socket_closed_eq connected_def)

section \<open>One presence entry for each user\<close>

lemma filter_key_update:
  "distinct (map fst al) \<Longrightarrow> filter (\<lambda>p. fst p = k) (AList.update k v al) = [(k, v)]"
proof (induction al)
  case Nil
  then show ?case by simp
next
  case (Cons p al)
  show ?case
  proof (cases "fst p = k")
    case True
    with Cons.prems have "k \<notin> fst ` set al" by auto
    then have "filter (\<lambda>p. fst p = k) al = []" by (auto simp: filter_empty_conv)
    with True show ?thesis by simp
  next
    case False
    with Cons show ?thesis by simp
  qed
qed

lemma on_connection_activeUsers:
  "activeUsers (on_connection c d t_conn t_seen t_on st)
     = AList.update (d_userId d) \<lparr>socketId = c, connectedAt = t_conn, lastSeen = t_seen\<rparr> (activeUsers st)"
  by (simp add: on_connection_def Let_def broadcast_emit_def to_emit_def socket_join_def console_log_def)

lemma connect_activeUsers_keys:
  "distinct (map fst (activeUsers st)) \<Longrightarrow>
   distinct (map fst (activeUsers (connect verify c token t1 t2 t3 st)))"
  by (auto simp: connect_def console_error_def on_connection_activeUsers distinct_update
        split: sum.splits auth_error.splits)

lemma on_join_study_group_activeUsers:
  "activeUsers (on_join_study_group c u g t st) = activeUsers st"
  by (simp add: on_join_study_group_def Let_def to_emit_def socket_join_def console_log_def
        console_error_def emit_def split: option.splits)

lemma on_collaboration_update_activeUsers:
  "activeUsers (on_collaboration_update c u data t st) = activeUsers st"
  by (simp add: on_collaboration_update_def to_emit_def console_error_def split: option.splits)

lemma on_practice_update_activeUsers:
  "activeUsers (on_practice_update c u data t st) = activeUsers st"
  by (simp add: on_practice_update_def to_emit_def console_error_def split: option.splits)

lemma on_typing_activeUsers:
  "activeUsers (on_typing c u data t st) = activeUsers st"
  by (simp add: on_typing_def to_emit_def console_error_def split: option.splits)

lemma with_socket_distinct_keys:
  "distinct (map fst (activeUsers st)) \<Longrightarrow>
   (\<And>u. distinct (map fst (activeUsers (h u st)))) \<Longrightarrow>
   distinct (map fst (activeUsers (with_socket c h st)))"
  by (simp add: with_socket_def split: option.splits)

lemma step_distinct_keys:
  assumes d: "distinct (map fst (activeUsers st))"
  shows "distinct (map fst (activeUsers (step verify e st)))"
proof (cases e)
  case (Connect c token t1 t2 t3)
  with d show ?thesis by (simp add: connect_activeUsers_keys)
next
  case (JoinStudyGroup c g t)
  show ?thesis unfolding JoinStudyGroup step.simps
    by (rule with_socket_distinct_keys [OF d]) (simp add: on_join_study_group_activeUsers d)
next
  case (CollaborationUpdate c data t)
  show ?thesis unfolding CollaborationUpdate step.simps
    by (rule with_socket_distinct_keys [OF d]) (simp add: on_collaboration_update_activeUsers d)
next
  case (PracticeUpdate c data t)
  show ?thesis unfolding PracticeUpdate step.simps
    by (rule with_socket_distinct_keys [OF d]) (simp add: on_practice_update_activeUsers d)
next
  case (Typing c data t)
  show ?thesis unfolding Typing step.simps
    by (rule with_socket_distinct_keys [OF d]) (simp add: on_typing_activeUsers d)
next
  case (Heartbeat c t1 t2)
  show ?thesis unfolding Heartbeat step.simps
    by (rule with_socket_distinct_keys [OF d])
       (simp add: on_heartbeat_activeUsers distinct_update d split: option.splits)
next
  case (Disconnect c reason t1 t2 db_ok)
  show ?thesis unfolding Disconnect step.simps
    by (rule with_socket_distinct_keys [OF d]) (simp add: on_disconnect_activeUsers distinct_delete d)
qed

lemma run_distinct_keys:
  "distinct (map fst (activeUsers st)) \<Longrightarrow> distinct (map fst (activeUsers (run verify es st)))"
  by (induction es arbitrary: st) (simp_all add: step_distinct_keys)

text \<open>
  C5. In every state the relay can reach from its start, the presence registry has at most
  one entry for each user id. After a connection attempt that the gate admits for user id
  \<open>u\<close>, the registry has exactly one entry for \<open>u\<close>, and it is the entry of the new
  socket: an entry that was there for \<open>u\<close> has been replaced.
\<close>

theorem admission_one_entry_per_identity:
  "distinct (map fst (activeUsers (run verify es (init um))))
   \<and> (\<forall>c token d t1 t2 t3.
         \<not> connected (run verify es (init um)) c \<and> io_use verify token = Inr d \<longrightarrow>
         filter (\<lambda>p. fst p = d_userId d)
           (activeUsers (step verify (Connect c token t1 t2 t3) (run verify es (init um))))
         = [(d_userId d, \<lparr>socketId = c, connectedAt = t1, lastSeen = t2\<rparr>)])"
proof -
  have d: "distinct (map fst (activeUsers (run verify es (init um))))"
    by (rule run_distinct_keys) (simp add: init_def)
  have "filter (\<lambda>p. fst p = d_userId d)
           (activeUsers (step verify (Connect c token t1 t2 t3) (run verify es (init um))))
         = [(d_userId d, \<lparr>socketId = c, connectedAt = t1, lastSeen = t2\<rparr>)]"
    if "\<not> connected (run verify es (init um)) c" "io_use verify token = Inr d" for c token d t1 t2 t3
    using that d by (simp add: connect_def on_connection_activeUsers filter_key_update)
  with d show ?thesis by blast
qed

theorem admission_one_entry_per_identity_witness:
  "\<not> connected (run verify_fixture
         [Connect ''s1'' (JStr ''token-u1'') 10 10 10, Connect ''s2'' (JStr ''token-u2'') 20 20 20]
         (init True)) ''s3''
   \<and> io_use verify_fixture (JStr ''token-u1'')
        = Inr \<lparr>d_userId = ''u1'', d_email = ''u1@example.org''\<rparr>
   \<and> activeUsers (step verify_fixture (Connect ''s3'' (JStr ''token-u1'') 30 31 32)
        (run verify_fixture
           [Connect ''s1'' (JStr ''token-u1'') 10 10 10, Connect ''s2'' (JStr ''token-u2'') 20 20 20]
           (init True)))
       = [(''u1'', \<lparr>socketId = ''s3'', connectedAt = 30, lastSeen = 31\<rparr>),
          (''u2'', \<lparr>socketId = ''s2'', connectedAt = 20, lastSeen = 20\<rparr>)]
   \<and> filter (\<lambda>p. fst p = ''u1'')
        (activeUsers (step verify_fixture (Connect ''s3'' (JStr ''token-u1'') 30 31 32)
           (run verify_fixture
              [Connect ''s1'' (JStr ''token-u1'') 10 10 10, Connect ''s2'' (JStr ''token-u2'') 20 20 20]
              (init True))))
       = [(''u1'', \<lparr>socketId = ''s3'', connectedAt = 30, lastSeen = 31\<rparr>)]"
proof -
  let ?es = "[Connect ''s1'' (JStr ''token-u1'') 10 10 10, Connect ''s2'' (JStr ''token-u2'') 20 20 20]"
  have r: "run verify_fixture ?es (init True) = two_users" by (simp only: two_users_def)
  have h1: "\<not> connected (run verify_fixture ?es (init True)) ''s3''"
    unfolding r by (simp add: two_users_eq connected_def)
  have h2: "io_use verify_fixture (JStr ''token-u1'') = Inr \<lparr>d_userId = ''u1'', d_email = ''u1@example.org''\<rparr>"
    by (simp add: io_use_def verify_fixture_def)
  have a: "activeUsers (step verify_fixture (Connect ''s3'' (JStr ''token-u1'') 30 31 32)
        (run verify_fixture ?es (init True)))
       = [(''u1'', \<lparr>socketId = ''s3'', connectedAt = 30, lastSeen = 31\<rparr>),
          (''u2'', \<lparr>socketId = ''s2'', connectedAt = 20, lastSeen = 20\<rparr>)]"
    unfolding r using h2 by (simp add: two_users_eq connect_def connected_def on_connection_activeUsers)
  note t = admission_one_entry_per_identity [of verify_fixture ?es True]
  from t h1 h2 have "filter (\<lambda>p. fst p = d_userId \<lparr>d_userId = ''u1'', d_email = ''u1@example.org''\<rparr>)
        (activeUsers (step verify_fixture (Connect ''s3'' (JStr ''token-u1'') 30 31 32)
           (run verify_fixture ?es (init True))))
       = [(d_userId \<lparr>d_userId = ''u1'', d_email = ''u1@example.org''\<rparr>,
           \<lparr>socketId = ''s3'', connectedAt = 30, lastSeen = 31\<rparr>)]"
    by blast
  then have f: "filter (\<lambda>p. fst p = ''u1'')
        (activeUsers (step verify_fixture (Connect ''s3'' (JStr ''token-u1'') 30 31 32)
           (run verify_fixture ?es (init True))))
       = [(''u1'', \<lparr>socketId = ''s3'', connectedAt = 30, lastSeen = 31\<rparr>)]"
    by (simp del: step.simps run.simps)
  show ?thesis using h1 h2 a f by blast
qed

section \<open>A collaboration update that names no group\<close>

lemma on_collaboration_update_sockets:
  "sockets (on_collaboration_update c u data t st) = sockets st"
  by (simp add: on_collaboration_update_def to_emit_def console_error_def split: option.splits)

lemma heartbeat_emitted:
  "map_of (sockets st) c = Some s \<Longrightarrow>
   emitted st (step verify (Heartbeat c t_seen t_ack) st) = [Send c (HeartbeatAck t_ack)]"
  by (simp add: with_socket_Some emitted_append on_heartbeat_trace)

text \<open>
  C7, as the code has it. A \<open>collaboration-update\<close> from a connected socket whose payload
  has no \<open>groupId\<close> is relayed to the other members of the room \<open>group-undefined\<close>,
  and nothing is logged; so nothing is sent exactly when nobody else is in that room. When
  the payload itself is \<open>null\<close> or \<open>undefined\<close> the handler logs the error and sends
  nothing. In both cases the table of sockets and the presence registry are as before, the
  sender stays connected, and a heartbeat it sends next is acknowledged.
\<close>

theorem collaboration_update_without_group:
  assumes "map_of (sockets st) c = Some s"
  shows "(destructure data = None \<longrightarrow>
            emitted st (step verify (CollaborationUpdate c data t) st)
              = [LogError CollaborationUpdateError])
       \<and> (\<forall>f. destructure data = Some f \<and> f ''groupId'' = JUndefined \<longrightarrow>
            emitted st (step verify (CollaborationUpdate c data t) st)
              = map (\<lambda>i. Send i (CollaborationUpdateOut (userId s) (f ''type'') (f ''content'') t))
                    (recipients c [JStr ''group-undefined''] st)
          \<and> set (recipients c [JStr ''group-undefined''] st) = members st ''group-undefined'' - {c})
       \<and> sockets (step verify (CollaborationUpdate c data t) st) = sockets st
       \<and> activeUsers (step verify (CollaborationUpdate c data t) st) = activeUsers st
       \<and> emitted (step verify (CollaborationUpdate c data t) st)
            (step verify (Heartbeat c t_seen t_ack) (step verify (CollaborationUpdate c data t) st))
           = [Send c (HeartbeatAck t_ack)]"
proof -
  let ?st' = "on_collaboration_update c (userId s) data t st"
  have st': "step verify (CollaborationUpdate c data t) st = ?st'"
    using assms by (simp add: with_socket_Some)
  have so: "sockets ?st' = sockets st" by (rule on_collaboration_update_sockets)
  have 1: "emitted st ?st' = [LogError CollaborationUpdateError]" if "destructure data = None"
    by (rule emitted_append) (simp add: that on_collaboration_update_def console_error_def)
  have 2: "emitted st ?st'
              = map (\<lambda>i. Send i (CollaborationUpdateOut (userId s) (f ''type'') (f ''content'') t))
                    (recipients c [JStr ''group-undefined''] st)"
    if "destructure data = Some f" "f ''groupId'' = JUndefined" for f
    by (rule emitted_append) (simp add: that on_collaboration_update_def to_emit_def)
  have h: "map_of (sockets ?st') c = Some s" using assms so by simp
  have 3: "emitted ?st' (step verify (Heartbeat c t_seen t_ack) ?st') = [Send c (HeartbeatAck t_ack)]"
    using heartbeat_emitted [OF h] .
  show ?thesis
    unfolding st' using 1 2 3 so on_collaboration_update_activeUsers set_recipients_room by blast
qed


theorem collaboration_update_without_group_witness:
  "map_of (sockets one_in_group_undefined) ''s1''
     = Some \<lparr>userId = ''u1'', userEmail = ''u1@example.org'', rooms = {''user-u1'', ''s1''}\<rparr>
   \<and> destructure JNull = None
   \<and> emitted one_in_group_undefined
        (step verify_fixture (CollaborationUpdate ''s1'' JNull 40) one_in_group_undefined)
       = [LogError CollaborationUpdateError]
   \<and> emitted one_in_group_undefined
        (step verify_fixture (CollaborationUpdate ''s1'' (JObj [(''content'', JStr ''hello'')]) 40)
           one_in_group_undefined)
       = [Send ''s2'' (CollaborationUpdateOut ''u1'' JUndefined (JStr ''hello'') 40)]
   \<and> emitted
        (step verify_fixture (CollaborationUpdate ''s1'' (JObj [(''content'', JStr ''hello'')]) 40)
           one_in_group_undefined)
        (step verify_fixture (Heartbeat ''s1'' 50 51)
           (step verify_fixture (CollaborationUpdate ''s1'' (JObj [(''content'', JStr ''hello'')]) 40)
              one_in_group_undefined))
       = [Send ''s1'' (HeartbeatAck 51)]"
proof -
  let ?f = "\<lambda>k. case map_of [(''content'', JStr ''hello'')] k of None \<Rightarrow> JUndefined | Some v \<Rightarrow> v"
  have h: "map_of (sockets one_in_group_undefined) ''s1''
     = Some \<lparr>userId = ''u1'', userEmail = ''u1@example.org'', rooms = {''user-u1'', ''s1''}\<rparr>"
    by (simp add: one_in_group_undefined_eq)
  have n: "destructure JNull = None" by simp
  have d: "destructure (JObj [(''content'', JStr ''hello'')]) = Some ?f" by simp
  have g: "?f ''groupId'' = JUndefined" by simp
  have r: "recipients ''s1'' [JStr ''group-undefined''] one_in_group_undefined = [''s2'']"
    by (simp add: one_in_group_undefined_eq recipients_def)
  note t1 = collaboration_update_without_group [OF h, of JNull verify_fixture 40 50 51]
  note t2 = collaboration_update_without_group
              [OF h, of "JObj [(''content'', JStr ''hello'')]" verify_fixture 40 50 51]
  from t1 n have 1: "emitted one_in_group_undefined
        (step verify_fixture (CollaborationUpdate ''s1'' JNull 40) one_in_group_undefined)
       = [LogError CollaborationUpdateError]" by blast
  from t2 d g have "emitted one_in_group_undefined
        (step verify_fixture (CollaborationUpdate ''s1'' (JObj [(''content'', JStr ''hello'')]) 40)
           one_in_group_undefined)
       = map (\<lambda>i. Send i (CollaborationUpdateOut
                 (userId \<lparr>userId = ''u1'', userEmail = ''u1@example.org'', rooms = {''user-u1'', ''s1''}\<rparr>)
                 (?f ''type'') (?f ''content'') 40))
             (recipients ''s1'' [JStr ''group-undefined''] one_in_group_undefined)" by blast
  then have 2: "emitted one_in_group_undefined
        (step verify_fixture (CollaborationUpdate ''s1'' (JObj [(''content'', JStr ''hello'')]) 40)
           one_in_group_undefined)
       = [Send ''s2'' (CollaborationUpdateOut ''u1'' JUndefined (JStr ''hello'') 40)]"
    unfolding r by (simp del: step.simps)
  from t2 have 3: "emitted
        (step verify_fixture (CollaborationUpdate ''s1'' (JObj [(''content'', JStr ''hello'')]) 40)
           one_in_group_undefined)
        (step verify_fixture (Heartbeat ''s1'' 50 51)
           (step verify_fixture (CollaborationUpdate ''s1'' (JObj [(''content'', JStr ''hello'')]) 40)
              one_in_group_undefined))
       = [Send ''s1'' (HeartbeatAck 51)]" by blast
  show ?thesis using h n 1 2 3 by blast
qed

text \<open>
  C7 as stated fails: a socket is in room \<open>group-undefined\<close>, another socket sends a
  \<open>collaboration-update\<close> whose payload has a type and a content and no \<open>groupId\<close>; the
  update is relayed to the first socket and nothing is logged.
\<close>

theorem collaboration_update_without_group_relayed:
  "emitted one_in_group_undefined
        (step verify_fixture
           (CollaborationUpdate ''s1'' (JObj [(''type'', JStr ''edit''), (''content'', JStr ''hello'')]) 40)
           one_in_group_undefined)
       = [Send ''s2'' (CollaborationUpdateOut ''u1'' (JStr ''edit'') (JStr ''hello'') 40)]
   \<and> list_ex is_send
        (emitted one_in_group_undefined
           (step verify_fixture
              (CollaborationUpdate ''s1'' (JObj [(''type'', JStr ''edit''), (''content'', JStr ''hello'')]) 40)
              one_in_group_undefined))
   \<and> \<not> list_ex is_log_error
        (emitted one_in_group_undefined
           (step verify_fixture
              (CollaborationUpdate ''s1'' (JObj [(''type'', JStr ''edit''), (''content'', JStr ''hello'')]) 40)
              one_in_group_undefined))"
  by (simp add: one_in_group_undefined_eq with_socket_def emitted_def on_collaboration_update_def
        to_emit_def recipients_def)

section \<open>Errors sent back to a client\<close>

lemma emitted_same: "emitted st st = []"
  by (simp add: emitted_def)

lemma to_emit_emitted: "emitted st (to_emit c keys ev st) = map (\<lambda>i. Send i ev) (recipients c keys st)"
  by (simp add: emitted_def to_emit_def)

lemma connect_no_error_packet:
  "\<not> list_ex is_error_packet (emitted st (connect verify c token t1 t2 t3 st))"
  by (simp add: connect_def emitted_def console_error_def on_connection_def Let_def console_log_def
        broadcast_emit_def to_emit_def socket_join_def list_ex_iff image_iff
        split: sum.splits auth_error.splits)

lemma collaboration_no_error_packet:
  "\<not> list_ex is_error_packet (emitted st (on_collaboration_update c u data t st))"
  by (simp add: on_collaboration_update_def emitted_def console_error_def to_emit_def list_ex_iff
        image_iff split: option.splits)

lemma practice_no_error_packet:
  "\<not> list_ex is_error_packet (emitted st (on_practice_update c u data t st))"
  by (simp add: on_practice_update_def emitted_def console_error_def to_emit_def list_ex_iff
        image_iff split: option.splits)

lemma typing_no_error_packet:
  "\<not> list_ex is_error_packet (emitted st (on_typing c u data t st))"
  by (simp add: on_typing_def emitted_def console_error_def to_emit_def list_ex_iff
        image_iff split: option.splits)

lemma heartbeat_no_error_packet:
  "\<not> list_ex is_error_packet (emitted st (on_heartbeat c u t1 t2 st))"
  by (simp add: emitted_def on_heartbeat_trace)

lemma disconnect_no_error_packet:
  "\<not> list_ex is_error_packet (emitted st (on_disconnect c u reason t1 t2 db_ok st))"
  by (auto simp: emitted_def on_disconnect_trace list_ex_iff)

lemma with_socket_no_error_packet:
  "(\<And>u. \<not> list_ex is_error_packet (emitted st (h u st))) \<Longrightarrow>
   \<not> list_ex is_error_packet (emitted st (with_socket c h st))"
  by (simp add: with_socket_def emitted_same split: option.splits)

lemma join_emitted_ok:
  "template groupId = Some g \<Longrightarrow>
   emitted st (on_join_study_group c u groupId t st)
     = map (\<lambda>i. Send i (UserJoinedGroup u groupId t)) (recipients c [JStr (''group-'' @ g)] st)
       @ [Log (UserJoinedStudyGroup u g)]"
  by (simp add: on_join_study_group_def Let_def emitted_def console_log_def to_emit_def
        recipients_socket_join) (simp add: socket_join_def)

lemma join_emitted_error:
  "template groupId = None \<Longrightarrow>
   emitted st (on_join_study_group c u groupId t st)
     = [LogError JoinStudyGroupError, Send c (ErrorOut ''Failed to join study group'')]"
  by (simp add: on_join_study_group_def emitted_def console_error_def emit_def)

text \<open>
  C8, as the code has it. No handler other than the one of \<open>join-study-group\<close> ever sends
  an \<open>error\<close> packet to any socket, whatever the payload and whatever fails: a connection
  attempt, a collaboration update, a practice update, a typing notice, a heartbeat and a
  disconnection send none. The handler of \<open>join-study-group\<close> sends none when the group
  id can be turned into a room name; when that conversion throws, it logs the error and sends
  one \<open>error\<close> packet, with the message \<open>Failed to join study group\<close>, to the sender
  and to nobody else.
\<close>

theorem errors_reach_sender_only_on_join:
  "(\<not> is_JoinStudyGroup ev \<longrightarrow> \<not> list_ex is_error_packet (emitted st (step verify ev st)))
   \<and> (\<forall>c groupId t s. ev = JoinStudyGroup c groupId t \<and> map_of (sockets st) c = Some s \<longrightarrow>
         (template groupId = None \<longrightarrow>
            emitted st (step verify ev st)
              = [LogError JoinStudyGroupError, Send c (ErrorOut ''Failed to join study group'')])
       \<and> (template groupId \<noteq> None \<longrightarrow>
            \<not> list_ex is_error_packet (emitted st (step verify ev st))))"
proof (intro conjI allI impI)
  assume "\<not> is_JoinStudyGroup ev"
  then show "\<not> list_ex is_error_packet (emitted st (step verify ev st))"
  proof (cases ev)
    case (Connect c token t1 t2 t3)
    then show ?thesis by (simp add: connect_no_error_packet)
  next
    case (CollaborationUpdate c data t)
    then show ?thesis by (simp add: with_socket_no_error_packet collaboration_no_error_packet)
  next
    case (PracticeUpdate c data t)
    then show ?thesis by (simp add: with_socket_no_error_packet practice_no_error_packet)
  next
    case (Typing c data t)
    then show ?thesis by (simp add: with_socket_no_error_packet typing_no_error_packet)
  next
    case (Heartbeat c t1 t2)
    then show ?thesis by (simp add: with_socket_no_error_packet heartbeat_no_error_packet)
  next
    case (Disconnect c reason t1 t2 db_ok)
    then show ?thesis by (simp add: with_socket_no_error_packet disconnect_no_error_packet)
  qed simp
next
  fix c groupId t s
  assume a: "ev = JoinStudyGroup c groupId t \<and> map_of (sockets st) c = Some s"
  then have st': "step verify ev st = on_join_study_group c (userId s) groupId t st"
    by (simp add: with_socket_Some)
  { assume "template groupId = None"
    then show "emitted st (step verify ev st)
        = [LogError JoinStudyGroupError, Send c (ErrorOut ''Failed to join study group'')]"
      unfolding st' by (rule join_emitted_error) }
  { assume "template groupId \<noteq> None"
    then obtain g where "template groupId = Some g" by blast
    then show "\<not> list_ex is_error_packet (emitted st (step verify ev st))"
      unfolding st' by (simp add: join_emitted_ok list_ex_iff image_iff) }
qed

theorem errors_reach_sender_only_on_join_witness:
  "\<not> is_JoinStudyGroup (CollaborationUpdate ''s1'' JNull 30)
   \<and> \<not> list_ex is_error_packet
         (emitted two_users (step verify_fixture (CollaborationUpdate ''s1'' JNull 30) two_users))
   \<and> map_of (sockets two_users) ''s1''
       = Some \<lparr>userId = ''u1'', userEmail = ''u1@example.org'', rooms = {''user-u1'', ''s1''}\<rparr>
   \<and> template (JObj [(''toString'', JNull)]) = None
   \<and> emitted two_users
        (step verify_fixture (JoinStudyGroup ''s1'' (JObj [(''toString'', JNull)]) 30) two_users)
       = [LogError JoinStudyGroupError, Send ''s1'' (ErrorOut ''Failed to join study group'')]
   \<and> template (JStr ''g1'') \<noteq> None
   \<and> \<not> list_ex is_error_packet
         (emitted two_users (step verify_fixture (JoinStudyGroup ''s1'' (JStr ''g1'') 30) two_users))"
proof -
  have h: "map_of (sockets two_users) ''s1''
       = Some \<lparr>userId = ''u1'', userEmail = ''u1@example.org'', rooms = {''user-u1'', ''s1''}\<rparr>"
    by (simp add: two_users_eq)
  have n: "\<not> is_JoinStudyGroup (CollaborationUpdate ''s1'' JNull 30)" by simp
  have f: "template (JObj [(''toString'', JNull)]) = None" by simp
  have g: "template (JStr ''g1'') \<noteq> None" by simp
  note t1 = errors_reach_sender_only_on_join
              [of "CollaborationUpdate ''s1'' JNull 30" two_users verify_fixture]
  note t2 = errors_reach_sender_only_on_join
              [of "JoinStudyGroup ''s1'' (JObj [(''toString'', JNull)]) 30" two_users verify_fixture]
  note t3 = errors_reach_sender_only_on_join
              [of "JoinStudyGroup ''s1'' (JStr ''g1'') 30" two_users verify_fixture]
  from t1 n have 1: "\<not> list_ex is_error_packet
         (emitted two_users (step verify_fixture (CollaborationUpdate ''s1'' JNull 30) two_users))"
    by blast
  from t2 h f have 2: "emitted two_users
        (step verify_fixture (JoinStudyGroup ''s1'' (JObj [(''toString'', JNull)]) 30) two_users)
       = [LogError JoinStudyGroupError, Send ''s1'' (ErrorOut ''Failed to join study group'')]"
    by blast
  from t3 h g have 3: "\<not> list_ex is_error_packet
         (emitted two_users (step verify_fixture (JoinStudyGroup ''s1'' (JStr ''g1'') 30) two_users))"
    by blast
  show ?thesis using n 1 h f 2 g 3 by blast
qed

text \<open>
  C8 as stated fails: a connected socket sends \<open>join-study-group\<close> with an object whose
  own property \<open>toString\<close> is \<open>null\<close>; the handler's \<open>catch\<close> sends an \<open>error\<close>
  packet back to that socket.
\<close>

theorem join_failure_reported_to_sender:
  "emitted two_users
     (step verify_fixture (JoinStudyGroup ''s1'' (JObj [(''toString'', JNull)]) 30) two_users)
   = [LogError JoinStudyGroupError, Send ''s1'' (ErrorOut ''Failed to join study group'')]"
  by (simp add: two_users_eq with_socket_def join_emitted_error)

section \<open>Typing notices and group rooms\<close>

lemma typing_emitted:
  "destructure data = Some f \<Longrightarrow>
   emitted st (on_typing c u data t st)
     = map (\<lambda>i. Send i (UserTyping u t)) (recipients c (room_keys (f ''roomId'')) st)"
  by (simp add: on_typing_def to_emit_emitted)

lemma on_join_study_group_members_other:
  "template groupId = Some g \<Longrightarrow> r \<noteq> ''group-'' @ g \<Longrightarrow>
   members (on_join_study_group c u groupId t st) r = members st r"
  using members_socket_join_other [of r "''group-'' @ g" c st]
  by (simp add: on_join_study_group_def Let_def members_def console_log_def to_emit_def)

lemma join_leaves_unprefixed_room:
  assumes "template groupId = Some g"
  shows "members (step verify (JoinStudyGroup c groupId t) st) g = members st g"
proof -
  have "g \<noteq> ''group-'' @ g" by simp
  then have "members (on_join_study_group c u groupId t st) g = members st g" for u
    using assms by (rule on_join_study_group_members_other [rotated])
  then show ?thesis by (simp add: with_socket_def split: option.splits)
qed

text \<open>
  C10, as the code has it. A \<open>typing\<close> event whose \<open>roomId\<close> is the string \<open>r\<close> is
  handed to exactly the sockets other than the sender that are in the room named \<open>r\<close>
  itself, while the members of a group \<open>r\<close> are the sockets in room \<open>group-r\<close>, and
  joining group \<open>r\<close> never puts a socket in room \<open>r\<close>. So a typing event with the
  unprefixed id reaches no member of the group unless a member other than the sender is also in a
  room named by the bare id (its own socket room, its personal room, another group's room);
  with the prefixed name \<open>group-r\<close> it reaches every other member.
\<close>

theorem typing_uses_room_name_verbatim:
  assumes "map_of (sockets st) c = Some s" and "destructure data = Some f"
    and "f ''roomId'' = JStr r"
  shows "emitted st (step verify (Typing c data t) st)
           = map (\<lambda>i. Send i (UserTyping (userId s) t)) (recipients c [JStr r] st)
       \<and> set (recipients c [JStr r] st) = members st r - {c}
       \<and> (members st r \<inter> members st (''group-'' @ r) \<subseteq> {c} \<longrightarrow>
            set (recipients c [JStr r] st) \<inter> members st (''group-'' @ r) = {})
       \<and> (\<forall>c' groupId t'. template groupId = Some r \<longrightarrow>
            members (step verify (JoinStudyGroup c' groupId t') st) r = members st r)"
proof -
  have e: "emitted st (step verify (Typing c data t) st)
           = map (\<lambda>i. Send i (UserTyping (userId s) t)) (recipients c [JStr r] st)"
    using assms by (simp add: with_socket_Some typing_emitted)
  have m: "set (recipients c [JStr r] st) = members st r - {c}"
    by (rule set_recipients_room)
  have d: "set (recipients c [JStr r] st) \<inter> members st (''group-'' @ r) = {}"
    if "members st r \<inter> members st (''group-'' @ r) \<subseteq> {c}"
    using that unfolding m by blast
  show ?thesis
  proof (intro conjI impI allI)
    show "emitted st (step verify (Typing c data t) st)
           = map (\<lambda>i. Send i (UserTyping (userId s) t)) (recipients c [JStr r] st)"
      by (rule e)
    show "set (recipients c [JStr r] st) = members st r - {c}"
      by (rule m)
    show "set (recipients c [JStr r] st) \<inter> members st (''group-'' @ r) = {}"
      if "members st r \<inter> members st (''group-'' @ r) \<subseteq> {c}"
      using that by (rule d)
    show "members (step verify (JoinStudyGroup c' groupId t') st) r = members st r"
      if "template groupId = Some r" for c' groupId t'
      using that by (rule join_leaves_unprefixed_room)
  qed
qed

theorem typing_uses_room_name_verbatim_witness:
  "map_of (sockets one_in_g1) ''s1''
     = Some \<lparr>userId = ''u1'', userEmail = ''u1@example.org'', rooms = {''user-u1'', ''s1''}\<rparr>
   \<and> members one_in_g1 ''g1'' \<inter> members one_in_g1 ''group-g1'' \<subseteq> {''s1''}
   \<and> members one_in_g1 ''group-g1'' = {''s2''}
   \<and> emitted one_in_g1
        (step verify_fixture (Typing ''s1'' (JObj [(''roomId'', JStr ''g1'')]) 40) one_in_g1) = []
   \<and> emitted one_in_g1
        (step verify_fixture (Typing ''s1'' (JObj [(''roomId'', JStr ''group-g1'')]) 40) one_in_g1)
       = [Send ''s2'' (UserTyping ''u1'' 40)]
   \<and> template (JStr ''g1'') = Some ''g1''
   \<and> members (step verify_fixture (JoinStudyGroup ''s1'' (JStr ''g1'') 50) one_in_g1) ''g1'' = {}"
proof -
  let ?f = "\<lambda>r k. case map_of [(''roomId'', JStr r)] k of None \<Rightarrow> JUndefined | Some v \<Rightarrow> v"
  have h: "map_of (sockets one_in_g1) ''s1''
     = Some \<lparr>userId = ''u1'', userEmail = ''u1@example.org'', rooms = {''user-u1'', ''s1''}\<rparr>"
    by (simp add: one_in_g1_eq)
  have d: "destructure (JObj [(''roomId'', JStr r)]) = Some (?f r)" for r by simp
  have g: "?f r ''roomId'' = JStr r" for r by simp
  have m0: "members one_in_g1 ''g1'' = {}" by (simp add: one_in_g1_eq members_def)
  have m1: "members one_in_g1 ''group-g1'' = {''s2''}" by (simp add: one_in_g1_eq members_def)
  have i: "members one_in_g1 ''g1'' \<inter> members one_in_g1 ''group-g1'' \<subseteq> {''s1''}"
    unfolding m0 by simp
  have r0: "recipients ''s1'' [JStr ''g1''] one_in_g1 = []"
    by (simp add: one_in_g1_eq recipients_def)
  have r1: "recipients ''s1'' [JStr ''group-g1''] one_in_g1 = [''s2'']"
    by (simp add: one_in_g1_eq recipients_def)
  have u: "userId \<lparr>userId = ''u1'', userEmail = ''u1@example.org'', rooms = {''user-u1'', ''s1''}\<rparr> = ''u1''"
    by simp
  have tg: "template (JStr ''g1'') = Some ''g1''" by simp
  note t0 = typing_uses_room_name_verbatim
              [OF h d [of "''g1''"] g [of "''g1''"], where verify = verify_fixture and t = 40,
               unfolded u r0]
  note t1 = typing_uses_room_name_verbatim
              [OF h d [of "''group-g1''"] g [of "''group-g1''"], where verify = verify_fixture and t = 40,
               unfolded u r1]
  from t0 have 0: "emitted one_in_g1
        (step verify_fixture (Typing ''s1'' (JObj [(''roomId'', JStr ''g1'')]) 40) one_in_g1) = []"
    by (simp del: step.simps)
  from t1 have 1: "emitted one_in_g1
        (step verify_fixture (Typing ''s1'' (JObj [(''roomId'', JStr ''group-g1'')]) 40) one_in_g1)
       = [Send ''s2'' (UserTyping ''u1'' 40)]"
    by (simp del: step.simps)
  from t0 tg have "members (step verify_fixture (JoinStudyGroup ''s1'' (JStr ''g1'') 50) one_in_g1) ''g1''
       = members one_in_g1 ''g1''"
    by blast
  then have 2: "members (step verify_fixture (JoinStudyGroup ''s1'' (JStr ''g1'') 50) one_in_g1) ''g1'' = {}"
    unfolding m0 .
  show ?thesis using h i m1 0 1 tg 2 by blast
qed

text \<open>
  C10 as stated fails for a group id that is also the name of a room: the second user joins
  the group whose id is \<open>user-u2\<close>, the name of its personal room, and a typing event with
  that unprefixed id reaches it.
\<close>

theorem typing_unprefixed_reaches_group_member:
  "''s2'' \<in> members one_in_group_user_u2 ''group-user-u2''
   \<and> emitted one_in_group_user_u2
        (step verify_fixture (Typing ''s1'' (JObj [(''roomId'', JStr ''user-u2'')]) 40)
           one_in_group_user_u2)
       = [Send ''s2'' (UserTyping ''u1'' 40)]"
  by (simp add: one_in_group_user_u2_eq members_def with_socket_def typing_emitted recipients_def)

section \<open>Eviction from the dynamic cache\<close>

text \<open>
  \<open>limitCacheSize\<close> on a cache with more than \<open>maxItems\<close> entries removes the oldest
  ones and keeps the \<open>maxItems\<close> newest, in their order.
\<close>

lemma cache_delete_fst: "cache_delete k cache = filter (\<lambda>p. fst p \<noteq> k) cache"
  by (simp add: cache_delete_def case_prod_unfold)

lemma fold_cache_delete:
  "fold cache_delete ks cache = filter (\<lambda>p. fst p \<notin> set ks) cache"
proof (induction ks arbitrary: cache)
  case Nil
  then show ?case by simp
next
  case (Cons k ks)
  have "filter (\<lambda>p. fst p \<notin> set ks) (filter (\<lambda>p. fst p \<noteq> k) cache)
          = filter (\<lambda>p. fst p \<notin> set (k # ks)) cache"
    by (auto intro: filter_cong)
  with Cons show ?case by (simp add: cache_delete_fst)
qed

lemma filter_oldest_keys:
  assumes "distinct (map fst cache)"
  shows "filter (\<lambda>p. fst p \<notin> set (take n (map fst cache))) cache = drop n cache"
proof -
  let ?old = "take n cache" and ?new = "drop n cache"
  have keys: "take n (map fst cache) = map fst ?old" by (simp add: take_map)
  have "distinct (map fst (?old @ ?new))" using assms by simp
  then have disj: "fst ` set ?old \<inter> fst ` set ?new = {}" by (simp del: append_take_drop_id)
  have a: "filter (\<lambda>p. fst p \<notin> fst ` set ?old) ?old = []"
    by (auto simp: filter_empty_conv)
  have b: "filter (\<lambda>p. fst p \<notin> fst ` set ?old) ?new = ?new"
    using disj by (auto simp: filter_id_conv)
  have "filter (\<lambda>p. fst p \<notin> fst ` set ?old) (?old @ ?new) = ?new"
    unfolding filter_append a b by simp
  then show ?thesis by (simp add: keys)
qed

lemma limitCacheSize_fifo:
  assumes "distinct (map fst cache)" and "maxItems < length cache"
  shows "limitCacheSize cache maxItems = drop (length cache - maxItems) cache"
    and "length (limitCacheSize cache maxItems) = maxItems"
proof -
  show 1: "limitCacheSize cache maxItems = drop (length cache - maxItems) cache"
    using assms
    by (simp add: limitCacheSize_def cache_keys_def fold_cache_delete filter_oldest_keys Let_def)
  show "length (limitCacheSize cache maxItems) = maxItems"
    unfolding 1 using assms(2) by simp
qed

lemma limitCacheSize_small: "length cache \<le> maxItems \<Longrightarrow> limitCacheSize cache maxItems = cache"
  by (simp add: limitCacheSize_def cache_keys_def)

lemma cache_put_fresh: "k \<notin> fst ` set cache \<Longrightarrow> cache_put k v cache = cache @ [(k, v)]"
  by (auto simp: cache_put_def cache_delete_fst filter_id_conv)

lemma full_cache_keys: "map fst full_cache = [0..<50]"
  by (simp add: full_cache_def comp_def)

text \<open>
  C9 at a run the code can make: the dynamic cache holds fifty entries and a request that is
  not among them is fetched with success. \<open>limitCacheSize\<close> runs before \<open>cache.put\<close>
  and finds nothing to delete, so the cache holds fifty-one entries after the step, one more
  than the limit of fifty.
\<close>

theorem dynamic_cache_exceeds_limit:
  "length full_cache = 50
   \<and> distinct (map fst full_cache)
   \<and> ok response_ok
   \<and> length (snd (handleDynamicRequest 50 (Fetched response_ok) full_cache)) = 51"
proof -
  have l: "length full_cache = 50" by (simp add: full_cache_def)
  have d: "distinct (map fst full_cache)" by (simp add: full_cache_keys)
  have o: "ok response_ok" by (simp add: ok_def response_ok_def)
  have f: "50 \<notin> fst ` set full_cache"
    using full_cache_keys by (metis atLeastLessThan_iff less_irrefl set_map set_upt)
  have "snd (handleDynamicRequest 50 (Fetched response_ok) full_cache) = full_cache @ [(50, response_ok)]"
    using o l f by (simp add: handleDynamicRequest_def limitCacheSize_small cache_put_fresh)
  with l d o show ?thesis by simp
qed

end
